theory Spec2Isabelle
  imports Complex_Main
begin

section \<open>Python values the gateway formats into text\<close>

text \<open>
  The gateway builds several texts with f-strings: \<open>str\<close> of an integer (a port, a status
  code) and \<open>repr\<close> of a string, of a list of strings and of a dictionary (the list of
  model names in the model-not-found message, the error chunk of a stream). Strings are
  modelled as \<open>string\<close>; a character is read as the code point of the same number.
\<close>

definition digit_char :: "nat \<Rightarrow> char" where
  "digit_char n = ''0123456789'' ! n"

fun str_nat :: "nat \<Rightarrow> string" where
  "str_nat n = (if n < 10 then [digit_char n] else str_nat (n div 10) @ [digit_char (n mod 10)])"

declare str_nat.simps [simp del]

definition str_int :: "int \<Rightarrow> string" where
  "str_int i = (if i < 0 then CHR ''-'' # str_nat (nat (- i)) else str_nat (nat i))"

definition hex_char :: "nat \<Rightarrow> char" where
  "hex_char n = ''0123456789abcdef'' ! n"

definition squote :: char where
  "squote = CHR 0x27"

definition dquote :: char where
  "dquote = CHR 0x22"

definition backslash :: char where
  "backslash = CHR 0x5C"

text \<open>
  \<open>repr\<close> of a \<open>str\<close>: single quotes, unless the text holds a single quote and no double
  quote; the quote in use and the backslash are escaped, tab, newline and carriage return
  are written \<open>\t\<close>, \<open>\n\<close>, \<open>\r\<close>, and any other character that is not printable is
  written \<open>\xhh\<close>.
\<close>

definition py_printable :: "char \<Rightarrow> bool" where
  "py_printable c =
     (let n = (of_char c :: nat) in \<not> (n < 32 \<or> (127 \<le> n \<and> n \<le> 160) \<or> n = 173))"

definition repr_char :: "char \<Rightarrow> char \<Rightarrow> string" where
  "repr_char q c =
     (if c = q \<or> c = backslash then [backslash, c]
      else if c = CHR 0x09 then [backslash, CHR ''t'']
      else if c = CHR 0x0A then [backslash, CHR ''n'']
      else if c = CHR 0x0D then [backslash, CHR ''r'']
      else if \<not> py_printable c then
        [backslash, CHR ''x'', hex_char ((of_char c :: nat) div 16), hex_char ((of_char c :: nat) mod 16)]
      else [c])"

definition repr_str :: "string \<Rightarrow> string" where
  "repr_str s =
     (let q = (if squote \<in> set s \<and> dquote \<notin> set s then dquote else squote)
      in q # concat (map (repr_char q) s) @ [q])"

fun join :: "string \<Rightarrow> string list \<Rightarrow> string" where
  "join sep [] = []"
| "join sep [x] = x"
| "join sep (x # y # ys) = x @ sep @ join sep (y # ys)"

datatype pyval = PyStr string | PyList "pyval list" | PyDict "(string \<times> pyval) list"

fun py_repr :: "pyval \<Rightarrow> string" where
  "py_repr (PyStr s) = repr_str s"
| "py_repr (PyList xs) = ''['' @ join '', '' (map py_repr xs) @ '']''"
| "py_repr (PyDict kvs) =
     ''{'' @ join '', '' (map (\<lambda>(k, v). repr_str k @ '': '' @ py_repr v) kvs) @ ''}''"

section \<open>Configuration (config.py)\<close>

record model_config =
  mc_port :: int
  mc_model :: string
  mc_quant :: "string option"
  mc_host :: string
  mc_timeout :: int
  mc_max_retries :: int

record api_key_config =
  ak_name :: string
  ak_quota :: string
  ak_enabled :: bool

text \<open>
  A Python \<open>dict\<close> keeps its keys in insertion order: an association list with one entry
  per key. \<open>dict_set\<close> is \<open>d[k] = v\<close>, \<open>dict_get\<close> is \<open>d.get(k)\<close> and \<open>dict_keys\<close> is
  \<open>list(d.keys())\<close>.
\<close>

fun dict_set :: "('k \<times> 'v) list \<Rightarrow> 'k \<Rightarrow> 'v \<Rightarrow> ('k \<times> 'v) list" where
  "dict_set [] k v = [(k, v)]"
| "dict_set ((k', v') # d) k v = (if k' = k then (k, v) # d else (k', v') # dict_set d k v)"

definition dict_get :: "('k \<times> 'v) list \<Rightarrow> 'k \<Rightarrow> 'v option" where
  "dict_get d k = map_of d k"

definition dict_keys :: "('k \<times> 'v) list \<Rightarrow> 'k list" where
  "dict_keys d = map fst d"

text \<open>
  The two YAML files as the process finds them at the moment of a call: their paths (from
  the settings), and for each file \<open>None\<close> when it does not exist, else the entries of its
  \<open>models\<close> (or \<open>keys\<close>) mapping, each already a well-typed configuration.
\<close>

record config_files =
  models_config_path :: string
  keys_config_path :: string
  models_file :: "(string \<times> model_config) list option"
  keys_file :: "(string \<times> api_key_config) list option"

record config_manager =
  models_cache :: "(string \<times> model_config) list option"
  keys_cache :: "(string \<times> api_key_config) list option"

datatype exn =
    OllamaError string
  | OllamaConnectionError string
  | OllamaModelNotFoundError string
  | FileNotFoundError string

fun str_exn :: "exn \<Rightarrow> string" where
  "str_exn (OllamaError m) = m"
| "str_exn (OllamaConnectionError m) = m"
| "str_exn (OllamaModelNotFoundError m) = m"
| "str_exn (FileNotFoundError m) = m"

text \<open>\<open>isinstance(e, OllamaError)\<close>: the two subclasses count.\<close>

fun is_OllamaError :: "exn \<Rightarrow> bool" where
  "is_OllamaError (FileNotFoundError m) = False"
| "is_OllamaError e = True"

definition load_models ::
  "config_files \<Rightarrow> bool \<Rightarrow> config_manager \<Rightarrow> (exn + (string \<times> model_config) list) \<times> config_manager" where
  "load_models files force_reload cm =
     (case (models_cache cm, force_reload) of
        (Some cached, False) \<Rightarrow> (Inr cached, cm)
      | _ \<Rightarrow>
        (case models_file files of
           None \<Rightarrow>
             (Inl (FileNotFoundError
                     (''Models config file not found: '' @ models_config_path files)), cm)
         | Some entries \<Rightarrow>
             (let models = foldl (\<lambda>d (k, v). dict_set d k v) [] entries
              in (Inr models, cm\<lparr>models_cache := Some models\<rparr>))))"

definition load_keys ::
  "config_files \<Rightarrow> bool \<Rightarrow> config_manager \<Rightarrow> (exn + (string \<times> api_key_config) list) \<times> config_manager" where
  "load_keys files force_reload cm =
     (case (keys_cache cm, force_reload) of
        (Some cached, False) \<Rightarrow> (Inr cached, cm)
      | _ \<Rightarrow>
        (case keys_file files of
           None \<Rightarrow>
             (Inl (FileNotFoundError
                     (''Keys config file not found: '' @ keys_config_path files)), cm)
         | Some entries \<Rightarrow>
             (let keys = foldl (\<lambda>d (k, v). dict_set d k v) [] entries
              in (Inr keys, cm\<lparr>keys_cache := Some keys\<rparr>))))"

definition get_model_config ::
  "config_files \<Rightarrow> config_manager \<Rightarrow> string \<Rightarrow> (exn + model_config option) \<times> config_manager" where
  "get_model_config files cm model_name =
     (case load_models files False cm of
        (Inl e, cm') \<Rightarrow> (Inl e, cm')
      | (Inr models, cm') \<Rightarrow> (Inr (dict_get models model_name), cm'))"

definition get_api_key_config ::
  "config_files \<Rightarrow> config_manager \<Rightarrow> string \<Rightarrow> (exn + api_key_config option) \<times> config_manager" where
  "get_api_key_config files cm api_key =
     (case load_keys files False cm of
        (Inl e, cm') \<Rightarrow> (Inl e, cm')
      | (Inr keys, cm') \<Rightarrow> (Inr (dict_get keys api_key), cm'))"

definition list_available_models ::
  "config_files \<Rightarrow> config_manager \<Rightarrow> (exn + string list) \<times> config_manager" where
  "list_available_models files cm =
     (case load_models files False cm of
        (Inl e, cm') \<Rightarrow> (Inl e, cm')
      | (Inr models, cm') \<Rightarrow> (Inr (dict_keys models), cm'))"

definition get_ollama_url ::
  "config_files \<Rightarrow> config_manager \<Rightarrow> string \<Rightarrow> (exn + string option) \<times> config_manager" where
  "get_ollama_url files cm model_name =
     (case get_model_config files cm model_name of
        (Inl e, cm') \<Rightarrow> (Inl e, cm')
      | (Inr None, cm') \<Rightarrow> (Inr None, cm')
      | (Inr (Some model_config), cm') \<Rightarrow>
          (Inr (Some (''http://'' @ mc_host model_config @ '':'' @ str_int (mc_port model_config))), cm'))"

definition reload_config :: "config_manager \<Rightarrow> config_manager" where
  "reload_config cm = cm\<lparr>models_cache := None, keys_cache := None\<rparr>"

section \<open>Wire models (models.py)\<close>

datatype role = System | User | Assistant

fun role_str :: "role \<Rightarrow> string" where
  "role_str System = ''system''"
| "role_str User = ''user''"
| "role_str Assistant = ''assistant''"

record chat_message =
  msg_role :: role
  msg_content :: string
  msg_name :: "string option"

datatype stop_spec = StopStr string | StopList "string list"

record chat_completion_request =
  rq_model :: string
  rq_messages :: "chat_message list"
  rq_temperature :: "real option"
  rq_max_tokens :: "int option"
  rq_top_p :: "real option"
  rq_frequency_penalty :: "real option"
  rq_presence_penalty :: "real option"
  rq_stream :: bool
  rq_stop :: "stop_spec option"
  rq_user :: "string option"

text \<open>The \<open>Field\<close> constraints of \<open>ChatCompletionRequest\<close>, checked when the body is parsed.\<close>

definition in_range :: "real \<Rightarrow> real \<Rightarrow> real option \<Rightarrow> bool" where
  "in_range lo hi v = (case v of None \<Rightarrow> True | Some x \<Rightarrow> lo \<le> x \<and> x \<le> hi)"

definition request_valid :: "chat_completion_request \<Rightarrow> bool" where
  "request_valid r =
     (in_range 0 1 (rq_temperature r)
      \<and> (case rq_max_tokens r of None \<Rightarrow> True | Some n \<Rightarrow> 0 < n)
      \<and> in_range 0 1 (rq_top_p r)
      \<and> in_range (- 2) 2 (rq_frequency_penalty r)
      \<and> in_range (- 2) 2 (rq_presence_penalty r))"

datatype finish_reason = Stop | Length | ContentFilter

record chat_completion_usage =
  us_prompt_tokens :: int
  us_completion_tokens :: int
  us_total_tokens :: int

record chat_completion_choice =
  ch_index :: int
  ch_message :: chat_message
  ch_finish_reason :: "finish_reason option"

record chat_completion_response =
  rs_id :: string
  rs_object :: string
  rs_created :: int
  rs_model :: string
  rs_choices :: "chat_completion_choice list"
  rs_usage :: "chat_completion_usage option"

record chat_completion_chunk_delta =
  dl_role :: "string option"
  dl_content :: "string option"

record chat_completion_chunk_choice =
  cc_index :: int
  cc_delta :: chat_completion_chunk_delta
  cc_finish_reason :: "finish_reason option"

record chat_completion_chunk =
  ck_id :: string
  ck_object :: string
  ck_created :: int
  ck_model :: string
  ck_choices :: "chat_completion_chunk_choice list"

record error_detail =
  ed_message :: string
  ed_type :: string
  ed_param :: "string option"
  ed_code :: "string option"

section \<open>What the backend sends\<close>

text \<open>
  A JSON object of the backend, as the gateway reads it: the keys \<open>message\<close> (an object
  whose \<open>content\<close> is a string), \<open>done\<close> (a boolean), \<open>prompt_eval_count\<close> and
  \<open>eval_count\<close> (integers), each present or absent, and the names of its other keys
  (\<open>model\<close>, \<open>created_at\<close>, ...), which decide whether the object is empty.
\<close>

record ollama_message =
  om_content :: "string option"

record ollama_chunk =
  oc_message :: "ollama_message option"
  oc_done :: "bool option"
  oc_prompt_eval_count :: "int option"
  oc_eval_count :: "int option"
  oc_other_keys :: "string list"

text \<open>Truth value of a \<open>dict\<close>: false exactly for the empty one.\<close>

definition chunk_truthy :: "ollama_chunk \<Rightarrow> bool" where
  "chunk_truthy c =
     (oc_message c \<noteq> None \<or> oc_done c \<noteq> None \<or> oc_prompt_eval_count c \<noteq> None
      \<or> oc_eval_count c \<noteq> None \<or> oc_other_keys c \<noteq> [])"

text \<open>\<open>c.get("done", False)\<close> and \<open>c.get("message", {}).get("content", "")\<close>.\<close>

definition get_done :: "ollama_chunk \<Rightarrow> bool" where
  "get_done c = (case oc_done c of None \<Rightarrow> False | Some b \<Rightarrow> b)"

definition get_content :: "ollama_chunk \<Rightarrow> string" where
  "get_content c =
     (case oc_message c of
        None \<Rightarrow> []
      | Some m \<Rightarrow> (case om_content m of None \<Rightarrow> [] | Some s \<Rightarrow> s))"

text \<open>
  One line of a streamed body as \<open>aiter_lines\<close> hands it over: blank; text that
  \<open>json.loads\<close> rejects with a \<open>JSONDecodeError\<close> (\<open>Malformed\<close>); text on which
  \<open>json.loads\<close> raises an exception of another class, with the text of that exception
  (\<open>ParserCrash\<close>: a \<open>RecursionError\<close> on deep nesting, a \<open>ValueError\<close> on an integer of
  more than 4300 digits); or text that it reads as an object. A line that is JSON but not
  an object of the shape above (a number, a list, a \<open>done\<close> that is not a boolean) is
  outside the model.
\<close>

datatype backend_line = BlankLine | Malformed | ParserCrash string | JsonLine ollama_chunk

text \<open>
  A whole body read at once and given to \<open>json.loads\<close>: the read times out, the read or
  the parse fails with some other exception (its text), or an object comes back.
\<close>

datatype read_result = ReadTimeout | ReadFailure string | ReadJson ollama_chunk

text \<open>
  A body of a successful response, seen line by line (the lines, then the text of the
  exception the line iterator raises after them, if it raises) and seen as a whole.
\<close>

record http_body =
  by_lines :: "backend_line list"
  lines_failure :: "string option"
  by_read :: read_result

text \<open>
  The outcome of the one HTTP exchange with the backend: \<open>httpx.TimeoutException\<close>,
  \<open>httpx.ConnectError\<close>, \<open>httpx.HTTPStatusError\<close> out of \<open>raise_for_status\<close> with the
  status code, any other exception with its text, or a successful response.
\<close>

datatype http_outcome =
    HttpTimeout
  | HttpConnectError
  | HttpStatusError nat
  | HttpOtherError string
  | HttpOk http_body

section \<open>The backend client (ollama_client.py)\<close>

record wire_message =
  wm_role :: string
  wm_content :: string

record ollama_options =
  op_temperature :: "real option"
  op_num_predict :: "int option"

record ollama_payload =
  pl_model :: string
  pl_messages :: "wire_message list"
  pl_stream :: bool
  pl_options :: "ollama_options option"
  pl_extra :: "(string \<times> pyval) list"

record upstream_call =
  uc_endpoint :: string
  uc_payload :: ollama_payload
  uc_timeout :: int

definition payload_keys :: "ollama_payload \<Rightarrow> string list" where
  "payload_keys p =
     [''model'', ''messages'', ''stream'']
     @ (case pl_options p of None \<Rightarrow> [] | Some _ \<Rightarrow> [''options''])
     @ map fst (pl_extra p)"

text \<open>The payload, built as the client builds it, statement by statement.\<close>

definition build_payload ::
  "model_config \<Rightarrow> wire_message list \<Rightarrow> bool \<Rightarrow> real option \<Rightarrow> int option
     \<Rightarrow> (string \<times> pyval) list \<Rightarrow> ollama_payload" where
  "build_payload model_config messages stream temperature max_tokens kwargs =
     (let p0 = \<lparr>pl_model = mc_model model_config, pl_messages = messages, pl_stream = stream,
                 pl_options = None, pl_extra = []\<rparr>;
          p1 = (case temperature of
                  None \<Rightarrow> p0
                | Some t \<Rightarrow> p0\<lparr>pl_options := Some \<lparr>op_temperature = Some t, op_num_predict = None\<rparr>\<rparr>);
          p2 = (case max_tokens of
                  None \<Rightarrow> p1
                | Some n \<Rightarrow>
                    p1\<lparr>pl_options :=
                         Some ((case pl_options p1 of
                                  None \<Rightarrow> \<lparr>op_temperature = None, op_num_predict = None\<rparr>
                                | Some opts \<Rightarrow> opts)\<lparr>op_num_predict := Some n\<rparr>)\<rparr>)
      in foldl (\<lambda>p (key, val). if key \<in> set (payload_keys p) then p
                                 else p\<lparr>pl_extra := pl_extra p @ [(key, val)]\<rparr>) p2 kwargs)"

text \<open>
  \<open>_process_streaming_response\<close>: the objects it yields, then the exception it raises,
  if any. A blank line is passed over, and so is a line that raises \<open>JSONDecodeError\<close>,
  which the inner \<open>except\<close> catches. Any other exception, out of \<open>json.loads\<close> or out of
  the line iterator, reaches the outer \<open>except\<close> and ends the generator with an
  \<open>OllamaError\<close>.
\<close>

fun process_streaming_response ::
  "backend_line list \<Rightarrow> string option \<Rightarrow> ollama_chunk list \<times> exn option" where
  "process_streaming_response [] None = ([], None)"
| "process_streaming_response [] (Some e) =
     ([], Some (OllamaError (''Error processing streaming response: '' @ e)))"
| "process_streaming_response (BlankLine # ls) f = process_streaming_response ls f"
| "process_streaming_response (Malformed # ls) f = process_streaming_response ls f"
| "process_streaming_response (ParserCrash e # ls) f =
     ([], Some (OllamaError (''Error processing streaming response: '' @ e)))"
| "process_streaming_response (JsonLine data # ls) f =
     (case process_streaming_response ls f of (cs, e) \<Rightarrow> (data # cs, e))"

text \<open>
  One run of the generator \<open>chat_completion\<close>, consumed to its end: what it yields, the
  exception that ends it (if one does), the HTTP calls it made and the configuration
  manager after it.
\<close>

record client_run =
  cr_yielded :: "ollama_chunk list"
  cr_raised :: "exn option"
  cr_calls :: "upstream_call list"
  cr_cm :: config_manager

definition failed_run :: "exn \<Rightarrow> upstream_call list \<Rightarrow> config_manager \<Rightarrow> client_run" where
  "failed_run e calls cm = \<lparr>cr_yielded = [], cr_raised = Some e, cr_calls = calls, cr_cm = cm\<rparr>"

definition unexpected_error :: "string \<Rightarrow> string \<Rightarrow> exn" where
  "unexpected_error model msg =
     OllamaError (''Unexpected error with Ollama for model '' @ model @ '': '' @ msg)"

definition model_not_found :: "string \<Rightarrow> string list \<Rightarrow> exn" where
  "model_not_found model available_models =
     OllamaModelNotFoundError
       (''Model '' @ [squote] @ model @ [squote] @ '' not found. Available models: ''
        @ py_repr (PyList (map PyStr available_models)))"

definition exchange ::
  "http_outcome \<Rightarrow> string \<Rightarrow> bool \<Rightarrow> ollama_chunk list \<times> exn option" where
  "exchange backend model stream =
     (case backend of
        HttpTimeout \<Rightarrow>
          ([], Some (OllamaConnectionError (''Timeout connecting to Ollama for model '' @ model)))
      | HttpConnectError \<Rightarrow>
          ([], Some (OllamaConnectionError (''Failed to connect to Ollama for model '' @ model)))
      | HttpStatusError code \<Rightarrow>
          ([], Some (OllamaError (''Ollama returned status '' @ str_nat code @ '' for model '' @ model)))
      | HttpOtherError msg \<Rightarrow> ([], Some (unexpected_error model msg))
      | HttpOk body \<Rightarrow>
          (if stream then
             (case process_streaming_response (by_lines body) (lines_failure body) of
                (cs, None) \<Rightarrow> (cs, None)
              | (cs, Some e) \<Rightarrow> (cs, Some (unexpected_error model (str_exn e))))
           else
             (case by_read body of
                ReadTimeout \<Rightarrow>
                  ([], Some (OllamaConnectionError (''Timeout connecting to Ollama for model '' @ model)))
              | ReadFailure msg \<Rightarrow> ([], Some (unexpected_error model msg))
              | ReadJson data \<Rightarrow> ([data], None))))"

definition chat_completion ::
  "config_files \<Rightarrow> config_manager \<Rightarrow> http_outcome \<Rightarrow> string \<Rightarrow> wire_message list \<Rightarrow> bool
     \<Rightarrow> real option \<Rightarrow> int option \<Rightarrow> (string \<times> pyval) list \<Rightarrow> client_run" where
  "chat_completion files cm backend model messages stream temperature max_tokens kwargs =
     (case get_model_config files cm model of
        (Inl e, cm1) \<Rightarrow> failed_run e [] cm1
      | (Inr None, cm1) \<Rightarrow>
          (case list_available_models files cm1 of
             (Inl e, cm2) \<Rightarrow> failed_run e [] cm2
           | (Inr available_models, cm2) \<Rightarrow> failed_run (model_not_found model available_models) [] cm2)
      | (Inr (Some model_config), cm1) \<Rightarrow>
          (case get_ollama_url files cm1 model of
             (Inl e, cm2) \<Rightarrow> failed_run e [] cm2
           | (Inr ollama_url, cm2) \<Rightarrow>
               (let endpoint = (case ollama_url of None \<Rightarrow> ''None'' | Some u \<Rightarrow> u) @ ''/api/chat'';
                    payload = build_payload model_config messages stream temperature max_tokens kwargs;
                    call = \<lparr>uc_endpoint = endpoint, uc_payload = payload,
                            uc_timeout = mc_timeout model_config\<rparr>
                in (case exchange backend model stream of
                      (cs, e) \<Rightarrow> \<lparr>cr_yielded = cs, cr_raised = e, cr_calls = [call], cr_cm = cm2\<rparr>))))"

section \<open>Authentication (auth.py)\<close>

datatype http_detail = DetailText string | DetailError error_detail

text \<open>
  One frame of an event stream: \<open>ChunkFrame c\<close> is the text \<open>data: \<close>, then
  \<open>c.model_dump_json()\<close>, then two newlines; \<open>TextFrame s\<close> is the text \<open>s\<close> as it is.
\<close>

datatype sse_frame =
    ChunkFrame chat_completion_chunk
  | TextFrame string

text \<open>
  A reply of the gateway: the status, the headers the handler sets, and the body: the
  \<open>detail\<close> of an \<open>HTTPException\<close>, a completion, or the frames of an event stream.
\<close>

datatype reply_body =
    Detail http_detail
  | Completion chat_completion_response
  | EventStream "sse_frame list"

record http_reply =
  rp_status :: nat
  rp_headers :: "(string \<times> string) list"
  rp_body :: reply_body

definition http_exception :: "nat \<Rightarrow> http_detail \<Rightarrow> (string \<times> string) list \<Rightarrow> http_reply" where
  "http_exception status_code detail headers =
     \<lparr>rp_status = status_code, rp_headers = headers, rp_body = Detail detail\<rparr>"

text \<open>
  \<open>APIKeyAuth.authenticate\<close>. Its argument is what \<open>HTTPBearer(auto_error=False)\<close> hands
  over: \<open>None\<close> when the request has no usable \<open>Authorization: Bearer\<close> header, else the
  presented key. The result is the raised \<open>HTTPException\<close> or the key's configuration.
\<close>

definition authenticate ::
  "config_files \<Rightarrow> config_manager \<Rightarrow> string option \<Rightarrow> (http_reply + api_key_config) \<times> config_manager" where
  "authenticate files cm credentials =
     (case credentials of
        None \<Rightarrow>
          (Inl (http_exception 401 (DetailText ''Authorization header required'')
                  [(''WWW-Authenticate'', ''Bearer'')]), cm)
      | Some api_key \<Rightarrow>
          (case get_api_key_config files cm api_key of
             (Inl e, cm') \<Rightarrow>
               (Inl (http_exception 500 (DetailText ''Authentication service error'') []), cm')
           | (Inr None, cm') \<Rightarrow>
               (Inl (http_exception 401 (DetailText ''Invalid API key'')
                       [(''WWW-Authenticate'', ''Bearer'')]), cm')
           | (Inr (Some key_config), cm') \<Rightarrow>
               (if \<not> ak_enabled key_config then
                  (Inl (http_exception 401 (DetailText ''API key is disabled'')
                          [(''WWW-Authenticate'', ''Bearer'')]), cm')
                else (Inr key_config, cm'))))"

text \<open>
  \<open>get_request_id\<close> asks the scope, a \<open>dict\<close>, for an attribute. The attributes of a
  \<open>dict\<close> are those of its class, whatever its keys are; for any other name \<open>getattr\<close>
  gives the default back.
\<close>

definition dict_attributes :: "string list" where
  "dict_attributes =
     [''clear'', ''copy'', ''fromkeys'', ''get'', ''items'', ''keys'', ''pop'', ''popitem'',
      ''setdefault'', ''update'', ''values'',
      ''__class__'', ''__class_getitem__'', ''__contains__'', ''__delattr__'', ''__delitem__'',
      ''__dir__'', ''__doc__'', ''__eq__'', ''__format__'', ''__ge__'', ''__getattribute__'',
      ''__getitem__'', ''__getstate__'', ''__gt__'', ''__hash__'', ''__init__'',
      ''__init_subclass__'', ''__ior__'', ''__iter__'', ''__le__'', ''__len__'', ''__lt__'',
      ''__ne__'', ''__new__'', ''__or__'', ''__reduce__'', ''__reduce_ex__'', ''__repr__'',
      ''__reversed__'', ''__ror__'', ''__setattr__'', ''__setitem__'', ''__sizeof__'',
      ''__str__'', ''__subclasshook__'']"

definition getattr_dict :: "(string \<times> string) list \<Rightarrow> string \<Rightarrow> string \<Rightarrow> string" where
  "getattr_dict d name dflt =
     (if name \<in> set dict_attributes then ''<built-in method '' @ name @ '' of dict object>''
      else dflt)"

definition get_request_id :: "(string \<times> string) list \<Rightarrow> string" where
  "get_request_id scope = getattr_dict scope ''request_id'' ''unknown''"

section \<open>The chat-completion route (router.py)\<close>

record completion_log =
  lg_status_code :: nat
  lg_tokens_prompt :: "int option"
  lg_tokens_response :: "int option"
  lg_error :: "string option"

definition to_wire :: "chat_message \<Rightarrow> wire_message" where
  "to_wire msg = \<lparr>wm_role = role_str (msg_role msg), wm_content = msg_content msg\<rparr>"

definition newline :: char where
  "newline = CHR 0x0A"

definition done_frame :: sse_frame where
  "done_frame = TextFrame (''data: [DONE]'' @ [newline, newline])"

definition error_chunk :: "string \<Rightarrow> pyval" where
  "error_chunk msg =
     PyDict [(''error'', PyDict [(''message'', PyStr msg), (''type'', PyStr ''server_error''),
                                 (''code'', PyStr ''streaming_error'')])]"

definition error_frame :: "string \<Rightarrow> sse_frame" where
  "error_frame msg = TextFrame (''data: '' @ py_repr (error_chunk msg) @ [newline, newline])"

definition mk_chunk ::
  "string \<Rightarrow> int \<Rightarrow> string \<Rightarrow> chat_completion_chunk_delta \<Rightarrow> finish_reason option
     \<Rightarrow> chat_completion_chunk" where
  "mk_chunk completion_id created_time model delta fin =
     \<lparr>ck_id = completion_id, ck_object = ''chat.completion.chunk'', ck_created = created_time,
      ck_model = model,
      ck_choices = [\<lparr>cc_index = 0, cc_delta = delta, cc_finish_reason = fin\<rparr>]\<rparr>"

text \<open>
  The loop of \<open>_stream_chat_completion\<close> over what the client yields, with its
  \<open>try\<close>/\<open>except\<close>: the frames it sends and the one completion log entry it writes. Its
  state is \<open>first_chunk\<close> and the two token counters.
\<close>

fun stream_loop ::
  "string \<Rightarrow> int \<Rightarrow> string \<Rightarrow> bool \<Rightarrow> int \<Rightarrow> int \<Rightarrow> ollama_chunk list \<Rightarrow> exn option
     \<Rightarrow> sse_frame list \<times> completion_log" where
  "stream_loop completion_id created_time model first_chunk prompt_tokens completion_tokens [] None =
     ([], \<lparr>lg_status_code = 200, lg_tokens_prompt = Some prompt_tokens,
           lg_tokens_response = Some completion_tokens, lg_error = None\<rparr>)"
| "stream_loop completion_id created_time model first_chunk prompt_tokens completion_tokens [] (Some e) =
     ([error_frame (str_exn e), done_frame],
      \<lparr>lg_status_code = 500, lg_tokens_prompt = None, lg_tokens_response = None,
       lg_error = Some (str_exn e)\<rparr>)"
| "stream_loop completion_id created_time model first_chunk prompt_tokens completion_tokens
     (ollama_chunk # rest) raised =
     (let prompt_tokens' = (case oc_prompt_eval_count ollama_chunk of
                              None \<Rightarrow> prompt_tokens | Some n \<Rightarrow> n);
          completion_tokens' = (case oc_eval_count ollama_chunk of
                                  None \<Rightarrow> completion_tokens | Some n \<Rightarrow> n);
          delta = (if first_chunk then \<lparr>dl_role = Some ''assistant'', dl_content = Some []\<rparr>
                   else \<lparr>dl_role = None, dl_content = Some (get_content ollama_chunk)\<rparr>);
          chunk = mk_chunk completion_id created_time model delta
                    (if get_done ollama_chunk then Some Stop else None)
      in if get_done ollama_chunk then
           ([ChunkFrame chunk,
             ChunkFrame (mk_chunk completion_id created_time model
                           \<lparr>dl_role = None, dl_content = None\<rparr> (Some Stop)),
             done_frame],
            \<lparr>lg_status_code = 200, lg_tokens_prompt = Some prompt_tokens',
             lg_tokens_response = Some completion_tokens', lg_error = None\<rparr>)
         else
           (case stream_loop completion_id created_time model False prompt_tokens'
                   completion_tokens' rest raised of
              (frames, lg) \<Rightarrow> (ChunkFrame chunk # frames, lg)))"

record stream_run =
  sr_frames :: "sse_frame list"
  sr_log :: completion_log
  sr_calls :: "upstream_call list"
  sr_cm :: config_manager

definition stream_chat_completion ::
  "config_files \<Rightarrow> config_manager \<Rightarrow> http_outcome \<Rightarrow> int \<Rightarrow> chat_completion_request \<Rightarrow> string
     \<Rightarrow> stream_run" where
  "stream_chat_completion files cm backend now chat_request request_id =
     (let completion_id = ''chatcmpl-'' @ request_id;
          created_time = now;
          ollama_messages = map to_wire (rq_messages chat_request);
          run = chat_completion files cm backend (rq_model chat_request) ollama_messages True
                  (rq_temperature chat_request) (rq_max_tokens chat_request) []
      in (case stream_loop completion_id created_time (rq_model chat_request) True 0 0
                 (cr_yielded run) (cr_raised run) of
            (frames, lg) \<Rightarrow>
              \<lparr>sr_frames = frames, sr_log = lg, sr_calls = cr_calls run, sr_cm = cr_cm run\<rparr>))"

record non_stream_run =
  ns_result :: "exn + chat_completion_response"
  ns_log :: "completion_log option"
  ns_calls :: "upstream_call list"
  ns_cm :: config_manager

definition non_stream_chat_completion ::
  "config_files \<Rightarrow> config_manager \<Rightarrow> http_outcome \<Rightarrow> int \<Rightarrow> chat_completion_request \<Rightarrow> string
     \<Rightarrow> non_stream_run" where
  "non_stream_chat_completion files cm backend now chat_request request_id =
     (let ollama_messages = map to_wire (rq_messages chat_request);
          run = chat_completion files cm backend (rq_model chat_request) ollama_messages False
                  (rq_temperature chat_request) (rq_max_tokens chat_request) [];
          failed = (\<lambda>e. \<lparr>ns_result = Inl e, ns_log = None, ns_calls = cr_calls run,
                          ns_cm = cr_cm run\<rparr>)
      in (case (cr_yielded run, cr_raised run) of
            ([], Some e) \<Rightarrow> failed e
          | ([], None) \<Rightarrow> failed (OllamaError ''No response received from Ollama'')
          | (ollama_response # _, _) \<Rightarrow>
              (if \<not> chunk_truthy ollama_response then
                 failed (OllamaError ''No response received from Ollama'')
               else
                 (let prompt_tokens = (case oc_prompt_eval_count ollama_response of
                                         None \<Rightarrow> 0 | Some n \<Rightarrow> n);
                      completion_tokens = (case oc_eval_count ollama_response of
                                             None \<Rightarrow> 0 | Some n \<Rightarrow> n);
                      openai_response =
                        \<lparr>rs_id = ''chatcmpl-'' @ request_id,
                         rs_object = ''chat.completion'',
                         rs_created = now,
                         rs_model = rq_model chat_request,
                         rs_choices =
                           [\<lparr>ch_index = 0,
                             ch_message = \<lparr>msg_role = Assistant,
                                           msg_content = get_content ollama_response,
                                           msg_name = None\<rparr>,
                             ch_finish_reason =
                               (if get_done ollama_response then Some Stop else None)\<rparr>],
                         rs_usage = Some \<lparr>us_prompt_tokens = prompt_tokens,
                                          us_completion_tokens = completion_tokens,
                                          us_total_tokens = prompt_tokens + completion_tokens\<rparr>\<rparr>
                  in \<lparr>ns_result = Inr openai_response,
                      ns_log = Some \<lparr>lg_status_code = 200, lg_tokens_prompt = Some prompt_tokens,
                                     lg_tokens_response = Some completion_tokens, lg_error = None\<rparr>,
                      ns_calls = cr_calls run, ns_cm = cr_cm run\<rparr>))))"

text \<open>
  What one request to \<open>POST /v1/chat/completions\<close> comes to: the reply, the completion
  log entry, the HTTP calls made to the backend and the configuration manager afterwards.
  The dependency \<open>get_current_user\<close> runs before the body of the handler; when it raises,
  the body does not run.
\<close>

record handled =
  hd_reply :: http_reply
  hd_log :: "completion_log option"
  hd_calls :: "upstream_call list"
  hd_cm :: config_manager

definition error_envelope :: "nat \<Rightarrow> string \<Rightarrow> string \<Rightarrow> string \<Rightarrow> http_reply" where
  "error_envelope status_code message type code =
     http_exception status_code
       (DetailError \<lparr>ed_message = message, ed_type = type, ed_param = None, ed_code = Some code\<rparr>) []"

definition chat_completions ::
  "config_files \<Rightarrow> config_manager \<Rightarrow> http_outcome \<Rightarrow> int \<Rightarrow> (string \<times> string) list
     \<Rightarrow> chat_completion_request \<Rightarrow> string option \<Rightarrow> handled" where
  "chat_completions files cm backend now scope chat_request credentials =
     (case authenticate files cm credentials of
        (Inl reply, cm1) \<Rightarrow> \<lparr>hd_reply = reply, hd_log = None, hd_calls = [], hd_cm = cm1\<rparr>
      | (Inr current_user, cm1) \<Rightarrow>
          (let request_id = get_request_id scope in
           if rq_stream chat_request then
             (let run = stream_chat_completion files cm1 backend now chat_request request_id
              in \<lparr>hd_reply = \<lparr>rp_status = 200, rp_headers = [(''X-Request-ID'', request_id)],
                              rp_body = EventStream (sr_frames run)\<rparr>,
                  hd_log = Some (sr_log run), hd_calls = sr_calls run, hd_cm = sr_cm run\<rparr>)
           else
             (let run = non_stream_chat_completion files cm1 backend now chat_request request_id
              in (case ns_result run of
                    Inr response \<Rightarrow>
                      \<lparr>hd_reply = \<lparr>rp_status = 200, rp_headers = [], rp_body = Completion response\<rparr>,
                       hd_log = ns_log run, hd_calls = ns_calls run, hd_cm = ns_cm run\<rparr>
                  | Inl e \<Rightarrow>
                      (if is_OllamaError e then
                         \<lparr>hd_reply = error_envelope 503 (str_exn e) ''service_unavailable'' ''ollama_error'',
                          hd_log = Some \<lparr>lg_status_code = 503, lg_tokens_prompt = None,
                                         lg_tokens_response = None, lg_error = Some (str_exn e)\<rparr>,
                          hd_calls = ns_calls run, hd_cm = ns_cm run\<rparr>
                       else
                         \<lparr>hd_reply = error_envelope 500 ''Internal server error'' ''internal_error''
                                       ''server_error'',
                          hd_log = Some \<lparr>lg_status_code = 500, lg_tokens_prompt = None,
                                         lg_tokens_response = None, lg_error = Some (str_exn e)\<rparr>,
                          hd_calls = ns_calls run, hd_cm = ns_cm run\<rparr>)))))"

text \<open>
  \<open>RequestIDMiddleware\<close> around the route: for an HTTP scope it stores the identifier it
  generated (\<open>request_id\<close>, a fresh UUID) under the key \<open>request_id\<close> of the scope and
  appends the header \<open>x-request-id\<close> to the reply. A scope always has the key \<open>type\<close>.
\<close>

definition request_id_middleware ::
  "string \<Rightarrow> ((string \<times> string) list \<Rightarrow> handled) \<Rightarrow> (string \<times> string) list \<Rightarrow> handled" where
  "request_id_middleware request_id app scope =
     (if dict_get scope ''type'' = Some ''http'' then
        (let scope' = dict_set scope ''request_id'' request_id;
             h = app scope'
         in h\<lparr>hd_reply := (hd_reply h)\<lparr>rp_headers :=
                 rp_headers (hd_reply h) @ [(''x-request-id'', request_id)]\<rparr>\<rparr>)
      else app scope)"

definition serve_chat_completions ::
  "config_files \<Rightarrow> config_manager \<Rightarrow> http_outcome \<Rightarrow> int \<Rightarrow> string \<Rightarrow> (string \<times> string) list
     \<Rightarrow> chat_completion_request \<Rightarrow> string option \<Rightarrow> handled" where
  "serve_chat_completions files cm backend now uuid scope chat_request credentials =
     request_id_middleware uuid
       (\<lambda>scope'. chat_completions files cm backend now scope' chat_request credentials) scope"

section \<open>A configuration and a request to run the gateway on\<close>

text \<open>
  The set-up of the repository's tests: one model, \<open>llama3\<close>, with the defaults of
  \<open>ModelConfig\<close>, the key \<open>my-key\<close>, and a disabled key beside it. \<open>new_config_manager\<close>
  is the manager as \<open>ConfigManager.__init__\<close> leaves it, with both caches empty.
\<close>

definition llama3_config :: model_config where
  "llama3_config =
     \<lparr>mc_port = 11434, mc_model = ''llama3'', mc_quant = None, mc_host = ''localhost'',
      mc_timeout = 30, mc_max_retries = 3\<rparr>"

definition dev_key :: api_key_config where
  "dev_key = \<lparr>ak_name = ''dev'', ak_quota = ''unlimited'', ak_enabled = True\<rparr>"

definition old_key :: api_key_config where
  "old_key = \<lparr>ak_name = ''old'', ak_quota = ''unlimited'', ak_enabled = False\<rparr>"

definition demo_models :: "(string \<times> model_config) list" where
  "demo_models = [(''llama3'', llama3_config)]"

definition demo_keys :: "(string \<times> api_key_config) list" where
  "demo_keys = [(''my-key'', dev_key), (''old-key'', old_key)]"

definition demo_files :: config_files where
  "demo_files =
     \<lparr>models_config_path = ''config/models.yaml'', keys_config_path = ''config/keys.yaml'',
      models_file = Some demo_models, keys_file = Some demo_keys\<rparr>"

definition new_config_manager :: config_manager where
  "new_config_manager = \<lparr>models_cache = None, keys_cache = None\<rparr>"

definition demo_request :: "string \<Rightarrow> bool \<Rightarrow> chat_completion_request" where
  "demo_request model stream =
     \<lparr>rq_model = model,
      rq_messages = [\<lparr>msg_role = User, msg_content = ''hi'', msg_name = None\<rparr>],
      rq_temperature = None, rq_max_tokens = None, rq_top_p = None,
      rq_frequency_penalty = None, rq_presence_penalty = None,
      rq_stream = stream, rq_stop = None, rq_user = None\<rparr>"

definition content_line :: "string \<Rightarrow> bool \<Rightarrow> int option \<Rightarrow> ollama_chunk" where
  "content_line text done_flag eval_count =
     \<lparr>oc_message = Some \<lparr>om_content = Some text\<rparr>, oc_done = Some done_flag,
      oc_prompt_eval_count = None, oc_eval_count = eval_count, oc_other_keys = []\<rparr>"

definition streamed :: "backend_line list \<Rightarrow> http_outcome" where
  "streamed ls = HttpOk \<lparr>by_lines = ls, lines_failure = None, by_read = ReadFailure []\<rparr>"

section \<open>Words of the specification about a stream\<close>


definition terminal_chunk :: "string \<Rightarrow> int \<Rightarrow> string \<Rightarrow> chat_completion_chunk" where
  "terminal_chunk completion_id created_time model =
     mk_chunk completion_id created_time model \<lparr>dl_role = None, dl_content = None\<rparr> (Some Stop)"





text \<open>
  How a presented credential stands against the key table: no credential, a key the
  table does not hold, a key it holds disabled, a key it holds enabled; or the table
  cannot be loaded.
\<close>

datatype credential_kind = Missing | Unknown | Disabled | Valid | TableUnavailable

definition credential_status ::
  "config_files \<Rightarrow> config_manager \<Rightarrow> string option \<Rightarrow> credential_kind" where
  "credential_status files cm credentials =
     (case credentials of
        None \<Rightarrow> Missing
      | Some api_key \<Rightarrow>
          (case fst (load_keys files False cm) of
             Inl e \<Rightarrow> TableUnavailable
           | Inr keys \<Rightarrow>
               (case dict_get keys api_key of
                  None \<Rightarrow> Unknown
                | Some key_config \<Rightarrow> if ak_enabled key_config then Valid else Disabled)))"

text \<open>The models file after a second model has been added to it.\<close>

definition grown_files :: config_files where
  "grown_files =
     \<lparr>models_config_path = ''config/models.yaml'', keys_config_path = ''config/keys.yaml'',
      models_file = Some (demo_models @ [(''mistral'', llama3_config\<lparr>mc_model := ''mistral''\<rparr>)]),
      keys_file = Some demo_keys\<rparr>"

text \<open>The configuration manager once both files have been read as \<open>demo_files\<close> has them.\<close>

definition loaded_config_manager :: config_manager where
  "loaded_config_manager = \<lparr>models_cache = Some demo_models, keys_cache = Some demo_keys\<rparr>"

definition answered :: "ollama_chunk \<Rightarrow> http_outcome" where
  "answered c = HttpOk \<lparr>by_lines = [], lines_failure = None, by_read = ReadJson c\<rparr>"

definition hello_reply :: ollama_chunk where
  "hello_reply =
     \<lparr>oc_message = Some \<lparr>om_content = Some ''hello''\<rparr>, oc_done = Some True,
      oc_prompt_eval_count = Some 3, oc_eval_count = Some 2, oc_other_keys = []\<rparr>"

definition empty_reply :: ollama_chunk where
  "empty_reply =
     \<lparr>oc_message = None, oc_done = None, oc_prompt_eval_count = None, oc_eval_count = None,
      oc_other_keys = []\<rparr>"

section \<open>Unfolding sets and basic facts\<close>

lemmas py_text = repr_str_def repr_char_def squote_def dquote_def backslash_def
  py_printable_def Let_def

lemmas cfg_defs = load_models_def load_keys_def get_model_config_def get_api_key_config_def
  list_available_models_def get_ollama_url_def dict_get_def dict_keys_def Let_def

lemmas demo_defs = demo_files_def new_config_manager_def demo_request_def llama3_config_def
  content_line_def streamed_def grown_files_def answered_def hello_reply_def empty_reply_def
  dev_key_def old_key_def demo_models_def demo_keys_def loaded_config_manager_def

lemmas run_defs = chat_completion_def exchange_def build_payload_def failed_run_def
  unexpected_error_def model_not_found_def stream_chat_completion_def
  non_stream_chat_completion_def chat_completions_def authenticate_def http_exception_def
  error_envelope_def get_request_id_def getattr_dict_def dict_attributes_def to_wire_def
  get_done_def get_content_def chunk_truthy_def Let_def

lemma load_models_again:
  "load_models files False cm = (Inr t, cm') \<Longrightarrow> load_models files False cm' = (Inr t, cm')"
  by (auto simp: load_models_def Let_def split: option.splits bool.splits)

lemma load_models_cached:
  "models_cache cm = Some t \<Longrightarrow> load_models files False cm = (Inr t, cm)"
  by (simp add: load_models_def)





lemma chat_completion_configured:
  assumes "load_models files False cm = (Inr t, cm')" and "dict_get t model = Some mc"
  shows "chat_completion files cm backend model msgs stream temp mt kw =
     \<lparr>cr_yielded = fst (exchange backend model stream),
      cr_raised = snd (exchange backend model stream),
      cr_calls = [\<lparr>uc_endpoint = ''http://'' @ mc_host mc @ '':'' @ str_int (mc_port mc) @ ''/api/chat'',
                   uc_payload = build_payload mc msgs stream temp mt kw,
                   uc_timeout = mc_timeout mc\<rparr>],
      cr_cm = cm'\<rparr>"
  using assms load_models_again[OF assms(1)]
  by (simp add: chat_completion_def get_model_config_def get_ollama_url_def Let_def
      split: prod.splits)

lemma chat_completion_unknown:
  assumes "load_models files False cm = (Inr t, cm')" and "dict_get t model = None"
  shows "chat_completion files cm backend model msgs stream temp mt kw =
     failed_run (model_not_found model (dict_keys t)) [] cm'"
  using assms load_models_again[OF assms(1)]
  by (simp add: chat_completion_def get_model_config_def list_available_models_def)

section \<open>The stream of a two-line backend\<close>

text \<open>
  C1. The backend streams the two lines \<open>{message:{content:"he"},done:false}\<close> and
  \<open>{message:{content:"llo"},done:true,eval_count:2}\<close>. The gateway sends four frames: the
  role announcement with empty content, which uses up the first line, so that its text
  \<open>he\<close> is in no frame; a chunk with the content \<open>llo\<close> and the finish reason \<open>stop\<close>;
  the terminal chunk; and the marker \<open>[DONE]\<close>.
\<close>

theorem two_line_stream_frames:
  "sr_frames (stream_chat_completion demo_files new_config_manager
       (streamed [JsonLine (content_line ''he'' False None),
                  JsonLine (content_line ''llo'' True (Some 2))])
       now (demo_request ''llama3'' True) rid) =
   [ChunkFrame (mk_chunk (''chatcmpl-'' @ rid) now ''llama3''
        \<lparr>dl_role = Some ''assistant'', dl_content = Some []\<rparr> None),
    ChunkFrame (mk_chunk (''chatcmpl-'' @ rid) now ''llama3''
        \<lparr>dl_role = None, dl_content = Some ''llo''\<rparr> (Some Stop)),
    ChunkFrame (mk_chunk (''chatcmpl-'' @ rid) now ''llama3''
        \<lparr>dl_role = None, dl_content = None\<rparr> (Some Stop)),
    done_frame]"
  by (simp add: run_defs cfg_defs demo_defs)

section \<open>The error frame of a stream\<close>

lemma error_frame_text:
  "error_frame msg =
     TextFrame (''data: {'error': {'message': '' @ repr_str msg
                @ '', 'type': 'server_error', 'code': 'streaming_error'}}'' @ [newline, newline])"
proof -
  have "repr_str ''error'' = CHR 0x27 # ''error'' @ [CHR 0x27]"
    and "repr_str ''message'' = CHR 0x27 # ''message'' @ [CHR 0x27]"
    and "repr_str ''type'' = CHR 0x27 # ''type'' @ [CHR 0x27]"
    and "repr_str ''code'' = CHR 0x27 # ''code'' @ [CHR 0x27]"
    and "repr_str ''server_error'' = CHR 0x27 # ''server_error'' @ [CHR 0x27]"
    and "repr_str ''streaming_error'' = CHR 0x27 # ''streaming_error'' @ [CHR 0x27]"
    by (simp_all add: py_text)
  then show ?thesis
    by (simp add: error_frame_def error_chunk_def)
qed

text \<open>
  C8. The backend times out on a streaming request. The stream ends with an error frame
  and the marker \<open>[DONE]\<close>; the text of the error frame after \<open>data: \<close> is the \<open>repr\<close> of a
  Python dictionary, its keys and strings in single quotes, which is not JSON.
\<close>

theorem stream_error_frame_is_python_repr:
  "sr_frames (stream_chat_completion demo_files new_config_manager HttpTimeout
       now (demo_request ''llama3'' True) rid) =
   [TextFrame (''data: {'error': {'message': 'Timeout connecting to Ollama for model llama3', 'type': 'server_error', 'code': 'streaming_error'}}''
               @ [newline, newline]),
    done_frame]"
  by (simp add: run_defs cfg_defs demo_defs error_frame_def error_chunk_def py_text)

section \<open>The request identifier\<close>

lemma get_request_id_unknown: "get_request_id scope = ''unknown''"
  by (simp add: get_request_id_def getattr_dict_def dict_attributes_def)

text \<open>
  C9. A streaming and a non-streaming request go through the middleware, which generated
  the identifier \<open>123e4567-e89b-12d3-a456-426614174000\<close> for each. The header
  \<open>x-request-id\<close> of the reply carries that identifier, and the chunk id and the completion
  id are \<open>chatcmpl-unknown\<close>: the handler reads the identifier as an attribute of the
  scope, where the middleware stored it as a key.
\<close>

theorem completion_id_is_unknown:
  "hd_reply (serve_chat_completions demo_files new_config_manager
        (streamed [JsonLine (content_line ''hi'' True None)]) 1700000000
        ''123e4567-e89b-12d3-a456-426614174000'' [(''type'', ''http'')]
        (demo_request ''llama3'' True) (Some ''my-key'')) =
   \<lparr>rp_status = 200,
    rp_headers = [(''X-Request-ID'', ''unknown''),
                  (''x-request-id'', ''123e4567-e89b-12d3-a456-426614174000'')],
    rp_body = EventStream
      [ChunkFrame (mk_chunk ''chatcmpl-unknown'' 1700000000 ''llama3''
         \<lparr>dl_role = Some ''assistant'', dl_content = Some []\<rparr> (Some Stop)),
       ChunkFrame (terminal_chunk ''chatcmpl-unknown'' 1700000000 ''llama3''),
       done_frame]\<rparr>
   \<and>
   hd_reply (serve_chat_completions demo_files new_config_manager (answered hello_reply) 1700000000
        ''123e4567-e89b-12d3-a456-426614174000'' [(''type'', ''http'')]
        (demo_request ''llama3'' False) (Some ''my-key'')) =
   \<lparr>rp_status = 200,
    rp_headers = [(''x-request-id'', ''123e4567-e89b-12d3-a456-426614174000'')],
    rp_body = Completion
      \<lparr>rs_id = ''chatcmpl-unknown'', rs_object = ''chat.completion'', rs_created = 1700000000,
       rs_model = ''llama3'',
       rs_choices = [\<lparr>ch_index = 0,
                      ch_message = \<lparr>msg_role = Assistant, msg_content = ''hello'', msg_name = None\<rparr>,
                      ch_finish_reason = Some Stop\<rparr>],
       rs_usage = Some \<lparr>us_prompt_tokens = 3, us_completion_tokens = 2, us_total_tokens = 5\<rparr>\<rparr>\<rparr>"
  by (simp add: serve_chat_completions_def request_id_middleware_def run_defs cfg_defs demo_defs
      terminal_chunk_def)

section \<open>The fields of a request that reach the backend\<close>

lemma stream_ignores_optional_fields:
  "stream_chat_completion files cm backend now
       (r\<lparr>rq_top_p := a, rq_frequency_penalty := b, rq_presence_penalty := c,
          rq_stop := d, rq_user := e\<rparr>) rid =
   stream_chat_completion files cm backend now r rid"
  by (simp add: stream_chat_completion_def)

lemma non_stream_ignores_optional_fields:
  "non_stream_chat_completion files cm backend now
       (r\<lparr>rq_top_p := a, rq_frequency_penalty := b, rq_presence_penalty := c,
          rq_stop := d, rq_user := e\<rparr>) rid =
   non_stream_chat_completion files cm backend now r rid"
  by (simp add: non_stream_chat_completion_def Let_def
      split: list.splits option.splits prod.splits)

lemma optional_fields_pass_validation:
  "request_valid r \<Longrightarrow> in_range 0 1 a \<Longrightarrow> in_range (- 2) 2 b \<Longrightarrow> in_range (- 2) 2 c \<Longrightarrow>
   request_valid (r\<lparr>rq_top_p := a, rq_frequency_penalty := b, rq_presence_penalty := c,
                    rq_stop := d, rq_user := e\<rparr>)"
  by (simp add: request_valid_def)

text \<open>
  C10. Whatever \<open>top_p\<close>, \<open>frequency_penalty\<close>, \<open>presence_penalty\<close>, \<open>stop\<close> and \<open>user\<close>
  a request carries, the gateway does with it what it does with the request that differs
  from it in these five fields only: the same calls to the backend with the same
  payloads, and the same reply. The model, the messages, the stream flag, the temperature
  and \<open>max_tokens\<close> are all that a payload is built from.
\<close>

theorem optional_fields_never_forwarded:
  "map uc_payload (hd_calls (chat_completions files cm backend now scope
       (r\<lparr>rq_top_p := a, rq_frequency_penalty := b, rq_presence_penalty := c,
          rq_stop := d, rq_user := e\<rparr>) credentials)) =
   map uc_payload (hd_calls (chat_completions files cm backend now scope r credentials))
   \<and> chat_completions files cm backend now scope
       (r\<lparr>rq_top_p := a, rq_frequency_penalty := b, rq_presence_penalty := c,
          rq_stop := d, rq_user := e\<rparr>) credentials =
     chat_completions files cm backend now scope r credentials"
  by (simp add: chat_completions_def stream_ignores_optional_fields
      non_stream_ignores_optional_fields Let_def split: prod.splits sum.splits)

section \<open>Lines of a stream: lines that do not parse and the terminator\<close>












section \<open>The non-streaming response\<close>

text \<open>
  The backend answers a non-streaming request with the empty object \<open>{}\<close>: \<open>done\<close> and
  the message are absent, and the gateway does not answer with a completion that has no
  finish reason and empty content; the guard \<open>if not ollama_response\<close> takes the empty
  object for no response, and the reply is the error 503.
\<close>

theorem empty_reply_is_rejected:
  "ns_result (non_stream_chat_completion demo_files new_config_manager (answered empty_reply) 0
      (demo_request ''llama3'' False) ''unknown'') =
   Inl (OllamaError ''No response received from Ollama'')
   \<and> hd_reply (chat_completions demo_files new_config_manager (answered empty_reply) 0 []
          (demo_request ''llama3'' False) (Some ''my-key'')) =
     error_envelope 503 ''No response received from Ollama'' ''service_unavailable'' ''ollama_error''"
  by (simp add: run_defs cfg_defs demo_defs)

text \<open>
  C3 (as amended). For a configured model and a backend that answers a non-streaming
  request with a JSON object other than the empty one, the gateway returns a completion
  with one choice: its content is the content of the object's message, or the empty string
  when the message or its content is absent; its finish reason is \<open>stop\<close> when \<open>done\<close> is
  true and none when \<open>done\<close> is false or absent; the usage holds the two counters of the
  object (0 for an absent one) and their sum as the total.
\<close>

theorem non_stream_response_of_reply:
  assumes "load_models files False cm = (Inr table, cm')"
      and "dict_get table (rq_model req) = Some mc"
      and "chunk_truthy c"
  shows "ns_result (non_stream_chat_completion files cm
            (HttpOk \<lparr>by_lines = ls, lines_failure = f, by_read = ReadJson c\<rparr>) now req rid) =
         Inr \<lparr>rs_id = ''chatcmpl-'' @ rid, rs_object = ''chat.completion'', rs_created = now,
              rs_model = rq_model req,
              rs_choices =
                [\<lparr>ch_index = 0,
                  ch_message =
                    \<lparr>msg_role = Assistant,
                     msg_content =
                       (case oc_message c of
                          None \<Rightarrow> []
                        | Some m \<Rightarrow> (case om_content m of None \<Rightarrow> [] | Some s \<Rightarrow> s)),
                     msg_name = None\<rparr>,
                  ch_finish_reason = (if oc_done c = Some True then Some Stop else None)\<rparr>],
              rs_usage =
                Some \<lparr>us_prompt_tokens = (case oc_prompt_eval_count c of None \<Rightarrow> 0 | Some n \<Rightarrow> n),
                      us_completion_tokens = (case oc_eval_count c of None \<Rightarrow> 0 | Some n \<Rightarrow> n),
                      us_total_tokens =
                        (case oc_prompt_eval_count c of None \<Rightarrow> 0 | Some n \<Rightarrow> n)
                        + (case oc_eval_count c of None \<Rightarrow> 0 | Some n \<Rightarrow> n)\<rparr>\<rparr>"
proof -
  have d: "get_done c = (oc_done c = Some True)"
    by (simp add: get_done_def split: option.splits)
  show ?thesis
    using assms(3)
    by (simp add: non_stream_chat_completion_def chat_completion_configured[OF assms(1,2)]
        exchange_def d get_content_def Let_def)
qed

text \<open>
  The scenario of the specification: the object
  \<open>{message:{content:"hello"}, done:true, prompt_eval_count:3, eval_count:2}\<close>.
\<close>

theorem non_stream_response_of_reply_witness:
  "load_models demo_files False new_config_manager =
     (Inr demo_models, \<lparr>models_cache = Some demo_models, keys_cache = None\<rparr>)
   \<and> dict_get demo_models (rq_model (demo_request ''llama3'' False)) = Some llama3_config
   \<and> chunk_truthy hello_reply
   \<and> ns_result (non_stream_chat_completion demo_files new_config_manager (answered hello_reply)
        1700000000 (demo_request ''llama3'' False) ''unknown'') =
      Inr \<lparr>rs_id = ''chatcmpl-unknown'', rs_object = ''chat.completion'', rs_created = 1700000000,
           rs_model = ''llama3'',
           rs_choices =
             [\<lparr>ch_index = 0,
               ch_message = \<lparr>msg_role = Assistant, msg_content = ''hello'', msg_name = None\<rparr>,
               ch_finish_reason = Some Stop\<rparr>],
           rs_usage = Some \<lparr>us_prompt_tokens = 3, us_completion_tokens = 2, us_total_tokens = 5\<rparr>\<rparr>"
proof -
  have h1: "load_models demo_files False new_config_manager =
     (Inr demo_models, \<lparr>models_cache = Some demo_models, keys_cache = None\<rparr>)"
    by (simp add: cfg_defs demo_defs)
  have h2: "dict_get demo_models (rq_model (demo_request ''llama3'' False)) = Some llama3_config"
    by (simp add: cfg_defs demo_defs)
  have h3: "chunk_truthy hello_reply"
    by (simp add: chunk_truthy_def hello_reply_def)
  show ?thesis
    using h1 h2 h3
      non_stream_response_of_reply[OF h1 h2 h3, of "[]" None 1700000000 "''unknown''"]
    by (simp add: answered_def hello_reply_def demo_request_def)
qed

section \<open>Requests without a valid credential\<close>

text \<open>
  A disabled key and a key the table does not hold: both replies have the status 401, and
  their messages differ, so the reply tells the caller which of the two the key is.
\<close>

theorem disabled_and_unknown_keys_differ:
  "hd_reply (chat_completions demo_files new_config_manager HttpTimeout 0 []
          (demo_request ''llama3'' False) (Some ''old-key'')) =
       http_exception 401 (DetailText ''API key is disabled'') [(''WWW-Authenticate'', ''Bearer'')]
   \<and> hd_reply (chat_completions demo_files new_config_manager HttpTimeout 0 []
          (demo_request ''llama3'' False) (Some ''no-such-key'')) =
       http_exception 401 (DetailText ''Invalid API key'') [(''WWW-Authenticate'', ''Bearer'')]
   \<and> hd_reply (chat_completions demo_files new_config_manager HttpTimeout 0 []
          (demo_request ''llama3'' False) (Some ''old-key'')) \<noteq>
     hd_reply (chat_completions demo_files new_config_manager HttpTimeout 0 []
          (demo_request ''llama3'' False) (Some ''no-such-key''))"
  by (simp add: run_defs cfg_defs demo_defs)

text \<open>
  C4 (as amended). For every key table, a request with a disabled key and a request with a
  key the table does not hold both get the status 401 with \<open>WWW-Authenticate: Bearer\<close>;
  the message is the fixed text \<open>API key is disabled\<close> for the first and the fixed text
  \<open>Invalid API key\<close> for the second, whatever the keys and the table are, so the two
  replies differ.
\<close>

theorem rejected_keys_get_fixed_messages:
  assumes "load_keys files False cm = (Inr keys, cm')"
      and "dict_get keys k1 = Some key_config"
      and "\<not> ak_enabled key_config"
      and "dict_get keys k2 = None"
  shows "hd_reply (chat_completions files cm backend now scope req (Some k1)) =
           http_exception 401 (DetailText ''API key is disabled'') [(''WWW-Authenticate'', ''Bearer'')]
     \<and> hd_reply (chat_completions files cm backend now scope req (Some k2)) =
           http_exception 401 (DetailText ''Invalid API key'') [(''WWW-Authenticate'', ''Bearer'')]
     \<and> hd_reply (chat_completions files cm backend now scope req (Some k1)) \<noteq>
         hd_reply (chat_completions files cm backend now scope req (Some k2))"
  using assms
  by (simp add: chat_completions_def authenticate_def get_api_key_config_def http_exception_def)

theorem rejected_keys_get_fixed_messages_witness:
  "load_keys demo_files False new_config_manager =
     (Inr demo_keys, \<lparr>models_cache = None, keys_cache = Some demo_keys\<rparr>)
   \<and> dict_get demo_keys ''old-key'' = Some old_key
   \<and> \<not> ak_enabled old_key
   \<and> dict_get demo_keys ''no-such-key'' = None
   \<and> rp_status (hd_reply (chat_completions demo_files new_config_manager HttpTimeout 0 []
          (demo_request ''llama3'' False) (Some ''old-key''))) = 401
   \<and> rp_status (hd_reply (chat_completions demo_files new_config_manager HttpTimeout 0 []
          (demo_request ''llama3'' False) (Some ''no-such-key''))) = 401"
proof -
  have h1: "load_keys demo_files False new_config_manager =
     (Inr demo_keys, \<lparr>models_cache = None, keys_cache = Some demo_keys\<rparr>)"
    by (simp add: cfg_defs demo_defs)
  have h2: "dict_get demo_keys ''old-key'' = Some old_key"
    by (simp add: cfg_defs demo_defs)
  have h3: "\<not> ak_enabled old_key"
    by (simp add: old_key_def)
  have h4: "dict_get demo_keys ''no-such-key'' = None"
    by (simp add: cfg_defs demo_defs)
  show ?thesis
    using h1 h2 h3 h4
      rejected_keys_get_fixed_messages[OF h1 h2 h3 h4, of HttpTimeout 0 "[]"
        "demo_request ''llama3'' False"]
    by (simp add: http_exception_def)
qed

text \<open>
  C5. A request whose credential is missing, unknown to the key table or disabled gets the
  status 401 with the header \<open>WWW-Authenticate: Bearer\<close>, and no call to the backend is
  made for it; so it is for the handler alone and for the handler behind the middleware.
\<close>

theorem no_credential_no_upstream_call:
  assumes "credential_status files cm credentials \<in> {Missing, Unknown, Disabled}"
  shows "rp_status (hd_reply (chat_completions files cm backend now scope req credentials)) = 401
     \<and> (''WWW-Authenticate'', ''Bearer'') \<in>
          set (rp_headers (hd_reply (chat_completions files cm backend now scope req credentials)))
     \<and> hd_calls (chat_completions files cm backend now scope req credentials) = []
     \<and> rp_status (hd_reply (serve_chat_completions files cm backend now uuid scope req credentials)) = 401
     \<and> (''WWW-Authenticate'', ''Bearer'') \<in>
          set (rp_headers (hd_reply (serve_chat_completions files cm backend now uuid scope req credentials)))
     \<and> hd_calls (serve_chat_completions files cm backend now uuid scope req credentials) = []"
proof -
  have a: "rp_status (hd_reply (chat_completions files cm backend now sc req credentials)) = 401
     \<and> (''WWW-Authenticate'', ''Bearer'') \<in>
          set (rp_headers (hd_reply (chat_completions files cm backend now sc req credentials)))
     \<and> hd_calls (chat_completions files cm backend now sc req credentials) = []" for sc
    using assms
    by (auto simp: credential_status_def chat_completions_def authenticate_def
        get_api_key_config_def http_exception_def
        split: option.splits sum.splits prod.splits if_splits)
  show ?thesis
    using a[of scope] a[of "dict_set scope ''request_id'' uuid"]
    by (simp add: serve_chat_completions_def request_id_middleware_def Let_def)
qed

theorem no_credential_no_upstream_call_witness:
  "credential_status demo_files new_config_manager None \<in> {Missing, Unknown, Disabled}
   \<and> credential_status demo_files new_config_manager (Some ''no-such-key'') \<in> {Missing, Unknown, Disabled}
   \<and> credential_status demo_files new_config_manager (Some ''old-key'') \<in> {Missing, Unknown, Disabled}
   \<and> hd_calls (chat_completions demo_files new_config_manager (answered hello_reply) 0 []
        (demo_request ''llama3'' False) None) = []
   \<and> hd_calls (chat_completions demo_files new_config_manager (answered hello_reply) 0 []
        (demo_request ''llama3'' False) (Some ''no-such-key'')) = []
   \<and> hd_calls (chat_completions demo_files new_config_manager (answered hello_reply) 0 []
        (demo_request ''llama3'' False) (Some ''old-key'')) = []"
proof -
  have h1: "credential_status demo_files new_config_manager None \<in> {Missing, Unknown, Disabled}"
    by (simp add: credential_status_def)
  have h2: "credential_status demo_files new_config_manager (Some ''no-such-key'')
              \<in> {Missing, Unknown, Disabled}"
    by (simp add: credential_status_def cfg_defs demo_defs)
  have h3: "credential_status demo_files new_config_manager (Some ''old-key'')
              \<in> {Missing, Unknown, Disabled}"
    by (simp add: credential_status_def cfg_defs demo_defs)
  show ?thesis
    using h1 h2 h3
      no_credential_no_upstream_call[OF h1, of "answered hello_reply" 0 "[]" "demo_request ''llama3'' False"]
      no_credential_no_upstream_call[OF h2, of "answered hello_reply" 0 "[]" "demo_request ''llama3'' False"]
      no_credential_no_upstream_call[OF h3, of "answered hello_reply" 0 "[]" "demo_request ''llama3'' False"]
    by simp
qed

text \<open>
  Whenever the credential is not a valid one, the key table being unreadable included, no
  call to the backend is made.
\<close>

lemma invalid_credential_never_calls_backend:
  "credential_status files cm credentials \<noteq> Valid \<Longrightarrow>
   hd_calls (chat_completions files cm backend now scope req credentials) = []"
  by (auto simp: credential_status_def chat_completions_def authenticate_def
      get_api_key_config_def split: option.splits sum.splits prod.splits if_splits)

text \<open>With the valid key the same request does reach the backend, once.\<close>

lemma valid_key_reaches_backend:
  "hd_calls (chat_completions demo_files new_config_manager (answered hello_reply) 0 []
        (demo_request ''llama3'' False) (Some ''my-key'')) =
   [\<lparr>uc_endpoint = ''http://localhost:11434/api/chat'',
     uc_payload = \<lparr>pl_model = ''llama3'',
                   pl_messages = [\<lparr>wm_role = ''user'', wm_content = ''hi''\<rparr>],
                   pl_stream = False, pl_options = None, pl_extra = []\<rparr>,
     uc_timeout = 30\<rparr>]"
  by (simp add: run_defs cfg_defs demo_defs str_int_def str_nat.simps digit_char_def)

section \<open>The model list of the model-not-found error\<close>

lemma authenticate_models_cache:
  "authenticate files cm credentials = (r, cm1) \<Longrightarrow> models_cache cm1 = models_cache cm"
  by (auto simp: authenticate_def get_api_key_config_def load_keys_def Let_def
      split: option.splits sum.splits prod.splits if_splits bool.splits)

text \<open>
  The manager has read the models file when it held \<open>llama3\<close> alone (as the first request
  of the last line leaves it); the file now holds \<open>llama3\<close> and \<open>mistral\<close>. A request for
  \<open>gpt-4\<close>, which neither holds, is answered with the list \<open>['llama3']\<close>: the names of
  the cache, not those of the file at the time of the request.
\<close>

theorem stale_model_list:
  "hd_reply (chat_completions grown_files loaded_config_manager (answered hello_reply) 0 []
       (demo_request ''gpt-4'' False) (Some ''my-key'')) =
     error_envelope 503 ''Model 'gpt-4' not found. Available models: ['llama3']''
       ''service_unavailable'' ''ollama_error''
   \<and> models_file grown_files =
       Some [(''llama3'', llama3_config), (''mistral'', llama3_config\<lparr>mc_model := ''mistral''\<rparr>)]
   \<and> hd_cm (chat_completions demo_files new_config_manager (answered hello_reply) 0 []
       (demo_request ''llama3'' False) (Some ''my-key'')) = loaded_config_manager"
  by (simp add: run_defs cfg_defs demo_defs py_text)

text \<open>
  C6 (as amended). For an authenticated request whose model name is not in the table the
  configuration manager looks it up in, no call to the backend is made and the error
  carries the text \<open>Model '<name>' not found. Available models: \<close> followed by the
  \<open>repr\<close> of the list of all names of that same table, in its order: in the message of
  the 503 reply for a non-streaming request, in the error frame of the stream for a
  streaming one. The table is the manager's cache when it has one, whatever the file holds
  at the time of the request, and is read from the file only when there is no cache yet.
\<close>

theorem unknown_model_lists_cached_names:
  assumes "authenticate files cm credentials = (Inr user, cm1)"
      and "load_models files False cm1 = (Inr table, cm2)"
      and "dict_get table (rq_model req) = None"
  shows "hd_calls (chat_completions files cm backend now scope req credentials) = []
     \<and> rp_body (hd_reply (chat_completions files cm backend now scope req credentials)) =
         (if rq_stream req then
            EventStream
              [error_frame (''Model '' @ [squote] @ rq_model req @ [squote]
                            @ '' not found. Available models: ''
                            @ py_repr (PyList (map PyStr (dict_keys table)))),
               done_frame]
          else
            Detail (DetailError
              \<lparr>ed_message = ''Model '' @ [squote] @ rq_model req @ [squote]
                            @ '' not found. Available models: ''
                            @ py_repr (PyList (map PyStr (dict_keys table))),
               ed_type = ''service_unavailable'', ed_param = None,
               ed_code = Some ''ollama_error''\<rparr>))
     \<and> rp_status (hd_reply (chat_completions files cm backend now scope req credentials)) =
         (if rq_stream req then 200 else 503)
     \<and> (case models_cache cm of
          None \<Rightarrow>
            map_option (foldl (\<lambda>d (k, v). dict_set d k v) []) (models_file files) = Some table
        | Some cached \<Rightarrow> table = cached)"
proof -
  have mc: "models_cache cm1 = models_cache cm"
    by (rule authenticate_models_cache[OF assms(1)])
  have cache: "case models_cache cm of
          None \<Rightarrow>
            map_option (foldl (\<lambda>d (k, v). dict_set d k v) []) (models_file files) = Some table
        | Some cached \<Rightarrow> table = cached"
    using assms(2) mc
    by (auto simp: load_models_def Let_def split: option.splits)
  show ?thesis
    using assms(1) cache
    by (simp add: chat_completions_def stream_chat_completion_def non_stream_chat_completion_def
        chat_completion_unknown[OF assms(2,3)] failed_run_def model_not_found_def
        error_envelope_def http_exception_def Let_def)
qed

text \<open>The amended claim at the request for \<open>gpt-4\<close> above.\<close>

theorem unknown_model_lists_cached_names_witness:
  "authenticate grown_files loaded_config_manager (Some ''my-key'') = (Inr dev_key, loaded_config_manager)
   \<and> load_models grown_files False loaded_config_manager = (Inr demo_models, loaded_config_manager)
   \<and> dict_get demo_models (rq_model (demo_request ''gpt-4'' False)) = None
   \<and> hd_calls (chat_completions grown_files loaded_config_manager (answered hello_reply) 0 []
        (demo_request ''gpt-4'' False) (Some ''my-key'')) = []
   \<and> rp_body (hd_reply (chat_completions grown_files loaded_config_manager (answered hello_reply) 0 []
        (demo_request ''gpt-4'' False) (Some ''my-key''))) =
      Detail (DetailError
        \<lparr>ed_message = ''Model 'gpt-4' not found. Available models: ['llama3']'',
         ed_type = ''service_unavailable'', ed_param = None, ed_code = Some ''ollama_error''\<rparr>)"
proof -
  have h1: "authenticate grown_files loaded_config_manager (Some ''my-key'') =
              (Inr dev_key, loaded_config_manager)"
    by (simp add: authenticate_def cfg_defs demo_defs)
  have h2: "load_models grown_files False loaded_config_manager =
              (Inr demo_models, loaded_config_manager)"
    by (simp add: cfg_defs demo_defs)
  have h3: "dict_get demo_models (rq_model (demo_request ''gpt-4'' False)) = None"
    by (simp add: cfg_defs demo_defs)
  note w = unknown_model_lists_cached_names[OF h1 h2 h3, of "answered hello_reply" 0 "[]"]
  show ?thesis
    using h1 h2 h3 w[THEN conjunct1] w[THEN conjunct2, THEN conjunct1]
    by (simp add: dict_keys_def dict_get_def demo_models_def demo_request_def py_text)
qed

end
